theory Spec2Isabelle
  imports Complex_Main
begin

section \<open>The Matter SetBody component: data model\<close>

text \<open>
  The component \<^verbatim>\<open>src/physics/matter-js/components/SetBody.js\<close> is a mixin: its
  methods run with \<^verbatim>\<open>this\<close> bound to a game object. Game objects, bodies and
  worlds are JavaScript objects that are shared by reference, so the model keeps them in an
  explicit store: an object is named by its address and every method takes the store and
  returns the updated one.

  JavaScript numbers are modelled as \<^typ>\<open>real\<close>: the only arithmetic of the component
  is \<^verbatim>\<open>Math.max(w, h) / 2\<close> and two additions, and NaN and the infinities are left out.
\<close>

type_synonym point = "real \<times> real"

type_synonym bid = nat
type_synonym eid = nat
type_synonym wid = nat

datatype jsval = JUndefined | JNull | JBool bool | JNum real | JStr string

text \<open>
  The \<^verbatim>\<open>options\<close> object is never read by the component, only handed on to the
  factories; it is a list of properties, which may well hold one called \<^verbatim>\<open>addToWorld\<close>.
\<close>

type_synonym options = "(string \<times> jsval) list"

text \<open>The \<^verbatim>\<open>verts\<close> property: a path string or a raw array of points.\<close>

datatype verts_src = VPath string | VRaw "point list"

text \<open>
  A configuration object, one field for each property that \<^verbatim>\<open>setBody\<close> reads.
  \<open>None\<close> is a property that the object does not have.
\<close>

record config_obj =
  cfg_type :: "string option"
  cfg_x :: "real option"
  cfg_y :: "real option"
  cfg_width :: "real option"
  cfg_height :: "real option"
  cfg_radius :: "real option"
  cfg_maxSides :: "real option"
  cfg_slope :: "real option"
  cfg_sides :: "real option"
  cfg_verts :: "verts_src option"
  cfg_flagInternal :: "bool option"
  cfg_removeCollinear :: "real option"
  cfg_minimumArea :: "real option"
  cfg_addToWorld :: "bool option"

text \<open>
  The \<^verbatim>\<open>config\<close> argument of \<^verbatim>\<open>setBody\<close>: \<^verbatim>\<open>null\<close> or \<^verbatim>\<open>undefined\<close>,
  a bare string, or an object.
\<close>

datatype config = CNull | CStr string | CObj config_obj

definition emptyConfig :: config_obj where
  "emptyConfig =
     \<lparr>cfg_type = None, cfg_x = None, cfg_y = None, cfg_width = None, cfg_height = None,
      cfg_radius = None, cfg_maxSides = None, cfg_slope = None, cfg_sides = None,
      cfg_verts = None, cfg_flagInternal = None, cfg_removeCollinear = None,
      cfg_minimumArea = None, cfg_addToWorld = None\<rparr>"

text \<open>
  How a body came to be: the factory call with its arguments in the order of the call, or
  \<open>External\<close> for a body made elsewhere and handed to \<^verbatim>\<open>setExistingBody\<close>.
\<close>

datatype factory_call =
    Rectangle real real real real options
  | Circle real real real options real
  | Trapezoid real real real real real options
  | Polygon real real real real options
  | FromVertices real real "point list" options bool real real
  | ParseBody real real real real config_obj
  | External

text \<open>
  A body object. \<open>destroy\<close> is the slot of the detachment hook: \<open>Some e\<close> is the
  function that \<^verbatim>\<open>setExistingBody\<close> installs, a closure whose only captured variable
  is \<^verbatim>\<open>_this\<close>, the game object \<open>e\<close>. \<open>temp\<close> is
  \<^verbatim>\<open>hasOwnProperty('temp')\<close>. \<open>vertices\<close> is what \<^verbatim>\<open>Body.setVertices\<close>
  last wrote.
\<close>

record body_obj =
  parts :: "bid list"
  gameObject :: "eid option"
  destroy :: "eid option"
  temp :: bool
  made :: factory_call
  vertices :: "point list option"

text \<open>The fields of the game object that the component reads or writes.\<close>

record entity =
  body :: "bid option"
  world :: wid
  width :: real
  height :: real
  tempVec2 :: point
  originComponent :: bool
  originX :: real
  originY :: real
  centerOffsetX :: real
  centerOffsetY :: real

record state =
  ents :: "eid \<Rightarrow> entity"
  bodies :: "bid \<Rightarrow> body_obj"
  worlds :: "wid \<Rightarrow> bid set"
  nextBody :: bid

datatype error = TypeError

section \<open>Collaborators\<close>

text \<open>
  Modelled from the spec: the simulation world (\<^verbatim>\<open>this.world\<close>, whose class is not
  part of the component). Its \<^verbatim>\<open>add\<close> and \<^verbatim>\<open>remove\<close> are membership operations,
  and removing a body that is not a member does nothing.
\<close>

definition world_add :: "wid \<Rightarrow> bid \<Rightarrow> state \<Rightarrow> state" where
  "world_add w b s = s\<lparr>worlds := (worlds s)(w := insert b (worlds s w))\<rparr>"

definition world_remove :: "wid \<Rightarrow> bid \<Rightarrow> state \<Rightarrow> state" where
  "world_remove w b s = s\<lparr>worlds := (worlds s)(w := worlds s w - {b})\<rparr>"

text \<open>
  Modelled from the spec: \<^verbatim>\<open>setOrigin\<close> of the game object's origin component, which
  stores the two origin coordinates.
\<close>

definition setOrigin :: "eid \<Rightarrow> real \<Rightarrow> real \<Rightarrow> state \<Rightarrow> state" where
  "setOrigin this ox oy s =
     s\<lparr>ents := (ents s)(this := (ents s this)\<lparr>originX := ox, originY := oy\<rparr>)\<rparr>"

text \<open>
  Modelled from the spec: \<^verbatim>\<open>GetFastValue(source, key, defaultValue)\<close> of
  \<^verbatim>\<open>utils/object\<close>: the explicit field where the object has it, the default otherwise.
  The first argument is the looked-up property.
\<close>

definition GetFastValue :: "'a option \<Rightarrow> 'a \<Rightarrow> 'a" where
  "GetFastValue field defaultValue = (case field of Some v \<Rightarrow> v | None \<Rightarrow> defaultValue)"

text \<open>
  Modelled from the spec: the factories of \<^verbatim>\<open>Bodies\<close> and
  \<^verbatim>\<open>PhysicsEditorParser.parseBody\<close>. Each returns a new body handle with a non-empty
  sequence of parts (the body itself, as Matter's \<^verbatim>\<open>Body.create\<close> has it), no
  back-reference and an unset \<^verbatim>\<open>destroy\<close> slot. The new object takes the next free
  address.
\<close>

definition newBody :: "factory_call \<Rightarrow> state \<Rightarrow> bid \<times> state" where
  "newBody c s =
     (let b = nextBody s in
      (b, s\<lparr>bodies := (bodies s)(b :=
               \<lparr>parts = [b], gameObject = None, destroy = None, temp = False,
                made = c, vertices = None\<rparr>),
            nextBody := Suc b\<rparr>))"

text \<open>
  Modelled from the spec: \<^verbatim>\<open>Body.setVertices(body, points)\<close> replaces the geometry of
  an existing body handle in place.
\<close>

definition setVertices :: "bid \<Rightarrow> point list \<Rightarrow> state \<Rightarrow> state" where
  "setVertices b pts s = s\<lparr>bodies := (bodies s)(b := (bodies s b)\<lparr>vertices := Some pts\<rparr>)\<rparr>"

section \<open>setExistingBody\<close>

text \<open>
  The loop of lines 116 to 119: \<^verbatim>\<open>body.parts[i].gameObject = this\<close> for every index.
  The parts are objects of the store, so a part may be the body itself or a part of another
  body as well.
\<close>

fun setGameObjects :: "eid \<Rightarrow> bid list \<Rightarrow> (bid \<Rightarrow> body_obj) \<Rightarrow> (bid \<Rightarrow> body_obj)" where
  "setGameObjects this [] h = h"
| "setGameObjects this (p # ps) h =
     setGameObjects this ps (h(p := (h p)\<lparr>gameObject := Some this\<rparr>))"

text \<open>
  \<^verbatim>\<open>setExistingBody(body, addToWorld)\<close>, lines 102 to 140. \<open>None\<close> for the flag is
  \<^verbatim>\<open>undefined\<close>. The result is \<^verbatim>\<open>this\<close> and the new store.
\<close>

definition setExistingBody :: "eid \<Rightarrow> bid \<Rightarrow> bool option \<Rightarrow> state \<Rightarrow> eid \<times> state" where
  "setExistingBody this b addToWorld s =
     (let addToWorld' = (case addToWorld of None \<Rightarrow> True | Some a \<Rightarrow> a);
          s1 = (case body (ents s this) of
                  Some old \<Rightarrow> world_remove (world (ents s this)) old s
                | None \<Rightarrow> s);
          s2 = s1\<lparr>ents := (ents s1)(this := (ents s1 this)\<lparr>body := Some b\<rparr>)\<rparr>;
          s3 = s2\<lparr>bodies := setGameObjects this (parts (bodies s2 b)) (bodies s2)\<rparr>;
          s4 = s3\<lparr>bodies := (bodies s3)(b := (bodies s3 b)\<lparr>destroy := Some this\<rparr>)\<rparr>;
          s5 = (if addToWorld' then world_add (world (ents s4 this)) b s4 else s4);
          s6 = (if originComponent (ents s5 this)
                then setOrigin this
                       (originX (ents s5 this) + centerOffsetX (ents s5 this))
                       (originY (ents s5 this) + centerOffsetY (ents s5 this)) s5
                else s5)
      in (this, s6))"

text \<open>
  Calling \<^verbatim>\<open>body.destroy()\<close>: the function of lines 123 to 127. It reads
  \<^verbatim>\<open>_this.world\<close> and \<^verbatim>\<open>_this.body\<close> when it runs. A body without the hook has
  no \<^verbatim>\<open>destroy\<close> to call, and \<^verbatim>\<open>_this.body.gameObject = null\<close> on an empty body
  slot throws.
\<close>

definition invokeDestroy :: "bid \<Rightarrow> state \<Rightarrow> error + state" where
  "invokeDestroy b s =
     (case destroy (bodies s b) of
        None \<Rightarrow> Inl TypeError
      | Some this \<Rightarrow>
          (case body (ents s this) of
             None \<Rightarrow> Inl TypeError
           | Some cur \<Rightarrow>
               (let s1 = world_remove (world (ents s this)) cur s
                in Inr (s1\<lparr>bodies := (bodies s1)(cur := (bodies s1 cur)\<lparr>gameObject := None\<rparr>)\<rparr>))))"

section \<open>setBody and the shape builders\<close>

text \<open>\<^verbatim>\<open>!config\<close>: \<^verbatim>\<open>null\<close>, \<^verbatim>\<open>undefined\<close> and the empty string are falsy.\<close>

fun falsy :: "config \<Rightarrow> bool" where
  "falsy CNull = True"
| "falsy (CStr t) = (t = [])"
| "falsy (CObj c) = False"

text \<open>Lines 163 to 167: a string \<^verbatim>\<open>config\<close> becomes \<^verbatim>\<open>{ type: config }\<close>.\<close>

fun asObject :: "config \<Rightarrow> config_obj" where
  "asObject (CStr t) = emptyConfig\<lparr>cfg_type := Some t\<rparr>"
| "asObject (CObj c) = c"
| "asObject CNull = emptyConfig"

text \<open>\<^verbatim>\<open>if (verts)\<close>: an array is truthy, the empty string is not.\<close>

fun truthyVerts :: "verts_src \<Rightarrow> bool" where
  "truthyVerts (VPath p) = (p \<noteq> [])"
| "truthyVerts (VRaw pts) = True"

text \<open>
  Lines 206 to 209. \<open>fromPath\<close> is \<^verbatim>\<open>Vertices.fromPath\<close>, the path parser, which
  is not part of the component: a parameter.
\<close>

fun resolveVerts :: "(string \<Rightarrow> point list) \<Rightarrow> verts_src \<Rightarrow> point list" where
  "resolveVerts fromPath (VPath p) = fromPath p"
| "resolveVerts fromPath (VRaw pts) = pts"

text \<open>
  The \<^verbatim>\<open>switch\<close> of lines 175 to 232 with the defaults of lines 170 to 173. The result
  is the variable \<^verbatim>\<open>body\<close> (\<open>None\<close> while it is \<^verbatim>\<open>undefined\<close>) and the store.
\<close>

definition buildShape ::
  "(string \<Rightarrow> point list) \<Rightarrow> eid \<Rightarrow> config_obj \<Rightarrow> options \<Rightarrow> state \<Rightarrow> bid option \<times> state" where
  "buildShape fromPath this cfg opts s =
     (let shapeType = GetFastValue (cfg_type cfg) ''rectangle'';
          bodyX = GetFastValue (cfg_x cfg) (fst (tempVec2 (ents s this)));
          bodyY = GetFastValue (cfg_y cfg) (snd (tempVec2 (ents s this)));
          bodyWidth = GetFastValue (cfg_width cfg) (width (ents s this));
          bodyHeight = GetFastValue (cfg_height cfg) (height (ents s this))
      in
        if shapeType = ''rectangle'' then
          map_prod Some id (newBody (Rectangle bodyX bodyY bodyWidth bodyHeight opts) s)
        else if shapeType = ''circle'' then
          (let radius = GetFastValue (cfg_radius cfg) (max bodyWidth bodyHeight / 2);
               maxSides = GetFastValue (cfg_maxSides cfg) 25
           in map_prod Some id (newBody (Circle bodyX bodyY radius opts maxSides) s))
        else if shapeType = ''trapezoid'' then
          (let slope = GetFastValue (cfg_slope cfg) 0.5
           in map_prod Some id (newBody (Trapezoid bodyX bodyY bodyWidth bodyHeight slope opts) s))
        else if shapeType = ''polygon'' then
          (let sides = GetFastValue (cfg_sides cfg) 5;
               pRadius = GetFastValue (cfg_radius cfg) (max bodyWidth bodyHeight / 2)
           in map_prod Some id (newBody (Polygon bodyX bodyY sides pRadius opts) s))
        else if shapeType = ''fromVertices'' \<or> shapeType = ''fromVerts'' then
          (case cfg_verts cfg of
             None \<Rightarrow> (None, s)
           | Some v \<Rightarrow>
               if truthyVerts v then
                 (let verts = resolveVerts fromPath v in
                  case body (ents s this) of
                    Some cur \<Rightarrow>
                      if \<not> temp (bodies s cur) then (Some cur, setVertices cur verts s)
                      else
                        (let flagInternal = GetFastValue (cfg_flagInternal cfg) False;
                             removeCollinear = GetFastValue (cfg_removeCollinear cfg) 0.01;
                             minimumArea = GetFastValue (cfg_minimumArea cfg) 10
                         in map_prod Some id
                              (newBody (FromVertices bodyX bodyY verts opts flagInternal
                                          removeCollinear minimumArea) s))
                  | None \<Rightarrow>
                      (let flagInternal = GetFastValue (cfg_flagInternal cfg) False;
                           removeCollinear = GetFastValue (cfg_removeCollinear cfg) 0.01;
                           minimumArea = GetFastValue (cfg_minimumArea cfg) 10
                       in map_prod Some id
                            (newBody (FromVertices bodyX bodyY verts opts flagInternal
                                        removeCollinear minimumArea) s)))
               else (None, s))
        else if shapeType = ''fromPhysicsEditor'' then
          map_prod Some id (newBody (ParseBody bodyX bodyY bodyWidth bodyHeight cfg) s)
        else (None, s))"

text \<open>\<^verbatim>\<open>setBody(config, options)\<close>, lines 153 to 240.\<close>

definition setBody ::
  "(string \<Rightarrow> point list) \<Rightarrow> eid \<Rightarrow> config \<Rightarrow> options \<Rightarrow> state \<Rightarrow> eid \<times> state" where
  "setBody fromPath this config opts s =
     (if falsy config then (this, s)
      else
        (let cfg = asObject config in
         case buildShape fromPath this cfg opts s of
           (Some b, s1) \<Rightarrow> setExistingBody this b (cfg_addToWorld cfg) s1
         | (None, s1) \<Rightarrow> (this, s1)))"

text \<open>The four builders, lines 35 to 89.\<close>

definition setRectangle ::
  "(string \<Rightarrow> point list) \<Rightarrow> eid \<Rightarrow> real \<Rightarrow> real \<Rightarrow> options \<Rightarrow> state \<Rightarrow> eid \<times> state" where
  "setRectangle fromPath this w h opts s =
     setBody fromPath this
       (CObj (emptyConfig\<lparr>cfg_type := Some ''rectangle'', cfg_width := Some w,
                          cfg_height := Some h\<rparr>)) opts s"

definition setCircle ::
  "(string \<Rightarrow> point list) \<Rightarrow> eid \<Rightarrow> real \<Rightarrow> options \<Rightarrow> state \<Rightarrow> eid \<times> state" where
  "setCircle fromPath this radius opts s =
     setBody fromPath this
       (CObj (emptyConfig\<lparr>cfg_type := Some ''circle'', cfg_radius := Some radius\<rparr>)) opts s"

definition setPolygon ::
  "(string \<Rightarrow> point list) \<Rightarrow> eid \<Rightarrow> real \<Rightarrow> real \<Rightarrow> options \<Rightarrow> state \<Rightarrow> eid \<times> state" where
  "setPolygon fromPath this radius sides opts s =
     setBody fromPath this
       (CObj (emptyConfig\<lparr>cfg_type := Some ''polygon'', cfg_sides := Some sides,
                          cfg_radius := Some radius\<rparr>)) opts s"

definition setTrapezoid ::
  "(string \<Rightarrow> point list) \<Rightarrow> eid \<Rightarrow> real \<Rightarrow> real \<Rightarrow> real \<Rightarrow> options \<Rightarrow> state \<Rightarrow> eid \<times> state" where
  "setTrapezoid fromPath this w h slope opts s =
     setBody fromPath this
       (CObj (emptyConfig\<lparr>cfg_type := Some ''trapezoid'', cfg_width := Some w,
                          cfg_height := Some h, cfg_slope := Some slope\<rparr>)) opts s"

section \<open>A sequence of attachments, and a concrete scene\<close>

text \<open>A caller attaching one body after another to the same game object.\<close>

fun attachSeq :: "eid \<Rightarrow> (bid \<times> bool option) list \<Rightarrow> state \<Rightarrow> state" where
  "attachSeq this [] s = s"
| "attachSeq this ((b, a) # ops) s = attachSeq this ops (snd (setExistingBody this b a s))"

text \<open>
  A scene for the concrete evaluations: every game object has the given width and height,
  has no body and lives in world 0; every body is a simple one (its only part is itself)
  made elsewhere; the world is empty; new bodies are allocated from address 100.
\<close>

definition sceneOf :: "real \<Rightarrow> real \<Rightarrow> state" where
  "sceneOf w h =
     \<lparr>ents = (\<lambda>e. \<lparr>body = None, world = 0, width = w, height = h, tempVec2 = (0, 0),
                   originComponent = False, originX = 0.5, originY = 0.5,
                   centerOffsetX = 0, centerOffsetY = 0\<rparr>),
      bodies = (\<lambda>b. \<lparr>parts = [b], gameObject = None, destroy = None, temp = False,
                     made = External, vertices = None\<rparr>),
      worlds = (\<lambda>w. {}),
      nextBody = 100\<rparr>"

definition scene :: state where
  "scene = sceneOf 40 20"

text \<open>The scene after body 1 and then body 2 have been attached to game object 0.\<close>

definition sceneOne :: state where
  "sceneOne = snd (setExistingBody 0 1 None scene)"

definition sceneTwo :: state where
  "sceneTwo = snd (setExistingBody 0 2 None sceneOne)"

text \<open>A path parser for the concrete evaluations: every path is one point.\<close>

definition onePoint :: "string \<Rightarrow> point list" where
  "onePoint p = [(0, 0)]"

text \<open>
  A path parser whose result depends on the path: a right triangle whose legs are as long
  as the string. And a raw array of points, another triangle.
\<close>

definition legsPath :: "string \<Rightarrow> point list" where
  "legsPath p = [(0, 0), (real (length p), 0), (0, real (length p))]"

definition rawTriangle :: "point list" where
  "rawTriangle = [(0, 0), (10, 0), (0, 10)]"

section \<open>Basic facts\<close>

lemma GetFastValue_simps:
  "GetFastValue (Some v) d = v"
  "GetFastValue None d = d"
  by (simp_all add: GetFastValue_def)

lemma scene_simps:
  "ents (sceneOf w h) e =
     \<lparr>body = None, world = 0, width = w, height = h, tempVec2 = (0, 0),
      originComponent = False, originX = 0.5, originY = 0.5,
      centerOffsetX = 0, centerOffsetY = 0\<rparr>"
  "bodies (sceneOf w h) b =
     \<lparr>parts = [b], gameObject = None, destroy = None, temp = False,
      made = External, vertices = None\<rparr>"
  "worlds (sceneOf w h) v = {}"
  "nextBody (sceneOf w h) = 100"
  by (simp_all add: sceneOf_def)

subsection \<open>The loop over the parts\<close>

lemma setGameObjects_gameObject:
  "gameObject (setGameObjects this ps h p) =
     (if p \<in> set ps then Some this else gameObject (h p))"
  by (induction ps arbitrary: h) auto

lemma setGameObjects_other:
  "parts (setGameObjects this ps h p) = parts (h p)"
  "destroy (setGameObjects this ps h p) = destroy (h p)"
  "temp (setGameObjects this ps h p) = temp (h p)"
  "made (setGameObjects this ps h p) = made (h p)"
  "vertices (setGameObjects this ps h p) = vertices (h p)"
  by (induction ps arbitrary: h) auto

subsection \<open>What setExistingBody leaves in the store, field by field\<close>

lemma setExistingBody_fst: "fst (setExistingBody this b a s) = this"
  by (simp add: setExistingBody_def Let_def)

lemma setExistingBody_body:
  "body (ents (snd (setExistingBody this b a s)) e) =
     (if e = this then Some b else body (ents s e))"
  by (simp add: setExistingBody_def Let_def world_add_def world_remove_def setOrigin_def
      split: option.splits)

lemma setExistingBody_world:
  "world (ents (snd (setExistingBody this b a s)) e) = world (ents s e)"
  by (simp add: setExistingBody_def Let_def world_add_def world_remove_def setOrigin_def
      split: option.splits)

lemma setExistingBody_size:
  "width (ents (snd (setExistingBody this b a s)) e) = width (ents s e)"
  "height (ents (snd (setExistingBody this b a s)) e) = height (ents s e)"
  by (simp_all add: setExistingBody_def Let_def world_add_def world_remove_def setOrigin_def
      split: option.splits)

lemma setExistingBody_worlds:
  "worlds (snd (setExistingBody this b a s)) w =
     (if w = world (ents s this)
      then (if a = Some False then {} else {b}) \<union>
           (worlds s w - set_option (body (ents s this)))
      else worlds s w)"
  by (cases a)
    (auto simp add: setExistingBody_def Let_def world_add_def world_remove_def setOrigin_def
      split: option.splits)

lemma setExistingBody_gameObject:
  "gameObject (bodies (snd (setExistingBody this b a s)) p) =
     (if p \<in> set (parts (bodies s b)) then Some this else gameObject (bodies s p))"
  by (simp add: setExistingBody_def Let_def world_add_def world_remove_def setOrigin_def
      setGameObjects_gameObject setGameObjects_other split: option.splits)

lemma setExistingBody_destroy:
  "destroy (bodies (snd (setExistingBody this b a s)) p) =
     (if p = b then Some this else destroy (bodies s p))"
  by (simp add: setExistingBody_def Let_def world_add_def world_remove_def setOrigin_def
      setGameObjects_other split: option.splits)

lemma setExistingBody_kept:
  "parts (bodies (snd (setExistingBody this b a s)) p) = parts (bodies s p)"
  "temp (bodies (snd (setExistingBody this b a s)) p) = temp (bodies s p)"
  "made (bodies (snd (setExistingBody this b a s)) p) = made (bodies s p)"
  "vertices (bodies (snd (setExistingBody this b a s)) p) = vertices (bodies s p)"
  "nextBody (snd (setExistingBody this b a s)) = nextBody s"
  by (simp_all add: setExistingBody_def Let_def world_add_def world_remove_def setOrigin_def
      setGameObjects_other split: option.splits)

lemmas attach_simps = setExistingBody_fst setExistingBody_body setExistingBody_world
  setExistingBody_size setExistingBody_worlds setExistingBody_gameObject
  setExistingBody_destroy setExistingBody_kept

lemmas build_defs = setBody_def buildShape_def newBody_def setVertices_def Let_def

subsection \<open>The hook of the body that is still the current one\<close>

lemma attached_backrefs:
  "p \<in> set (parts (bodies s b)) \<Longrightarrow>
   gameObject (bodies (snd (setExistingBody this b a s)) p) = Some this"
  by (simp add: attach_simps)

lemma destroy_current_returns:
  "\<exists>s'. invokeDestroy b (snd (setExistingBody this b a s)) = Inr s'"
  by (simp add: invokeDestroy_def attach_simps Let_def)

lemma destroy_current:
  "invokeDestroy b (snd (setExistingBody this b a s)) = Inr s' \<Longrightarrow>
   gameObject (bodies s' b) = None \<and> b \<notin> worlds s' (world (ents s this))"
  by (auto simp add: invokeDestroy_def attach_simps world_remove_def Let_def
      split: option.splits)

text \<open>
  The hook of any body that was attached to a game object acts on the body that the game
  object holds when the hook runs.
\<close>

lemma destroy_after_replacement:
  "invokeDestroy b1 (snd (setExistingBody this b2 a2 (snd (setExistingBody this b1 a1 s)))) = Inr s3
   \<Longrightarrow> b2 \<notin> worlds s3 (world (ents s this)) \<and> gameObject (bodies s3 b2) = None"
  by (auto simp add: invokeDestroy_def attach_simps world_remove_def Let_def
      split: option.splits if_splits)

subsection \<open>A sequence of attachments\<close>

lemma attachSeq_inv:
  "set (map fst ops) \<subseteq> S \<Longrightarrow>
   \<forall>b\<in>S. b \<in> worlds s (world (ents s e)) \<longrightarrow> body (ents s e) = Some b \<Longrightarrow>
   \<forall>b\<in>S. b \<in> worlds (attachSeq e ops s) (world (ents s e)) \<longrightarrow>
          body (ents (attachSeq e ops s) e) = Some b"
proof (induction ops arbitrary: s)
  case Nil
  then show ?case by simp
next
  case (Cons op ops)
  obtain b a where op: "op = (b, a)" by (cases op)
  let ?s1 = "snd (setExistingBody e b a s)"
  have sub: "set (map fst ops) \<subseteq> S" using Cons.prems(1) by auto
  have w: "world (ents ?s1 e) = world (ents s e)" by (simp add: setExistingBody_world)
  have inv1: "\<forall>c\<in>S. c \<in> worlds ?s1 (world (ents ?s1 e)) \<longrightarrow> body (ents ?s1 e) = Some c"
    using Cons.prems(2) by (auto simp: attach_simps split: if_splits)
  from Cons.IH [OF sub inv1] show ?case by (simp add: op w)
qed

subsection \<open>The fromVertices branch\<close>

lemma buildShape_inplace:
  assumes "cfg_type cfg = Some ''fromVertices'' \<or> cfg_type cfg = Some ''fromVerts''"
    and "cfg_verts cfg = Some v"
    and "truthyVerts v"
    and "body (ents s this) = Some cur"
    and "\<not> temp (bodies s cur)"
  shows "buildShape fromPath this cfg opts s =
           (Some cur, setVertices cur (resolveVerts fromPath v) s)"
  using assms(1)
proof
  assume "cfg_type cfg = Some ''fromVertices''"
  with assms(2-5) show ?thesis by (simp add: buildShape_def GetFastValue_simps Let_def)
next
  assume "cfg_type cfg = Some ''fromVerts''"
  with assms(2-5) show ?thesis by (simp add: buildShape_def GetFastValue_simps Let_def)
qed

lemma buildShape_fresh:
  assumes "cfg_type cfg = Some ''fromVertices'' \<or> cfg_type cfg = Some ''fromVerts''"
    and "cfg_verts cfg = Some v"
    and "truthyVerts v"
    and "body (ents s this) = None"
  shows "buildShape fromPath this cfg opts s =
           (Some (nextBody s),
            snd (newBody
                   (FromVertices (GetFastValue (cfg_x cfg) (fst (tempVec2 (ents s this))))
                      (GetFastValue (cfg_y cfg) (snd (tempVec2 (ents s this))))
                      (resolveVerts fromPath v) opts
                      (GetFastValue (cfg_flagInternal cfg) False)
                      (GetFastValue (cfg_removeCollinear cfg) 0.01)
                      (GetFastValue (cfg_minimumArea cfg) 10)) s))"
  using assms(1)
proof
  assume "cfg_type cfg = Some ''fromVertices''"
  with assms(2-4) show ?thesis
    by (simp add: buildShape_def newBody_def GetFastValue_simps Let_def)
next
  assume "cfg_type cfg = Some ''fromVerts''"
  with assms(2-4) show ?thesis
    by (simp add: buildShape_def newBody_def GetFastValue_simps Let_def)
qed

section \<open>The claims\<close>

subsection \<open>C1: the hook of a replaced body\<close>

text \<open>
  C1 says that, once a body B1 and then a body B2 have been attached to a game object,
  calling the hook installed on B1 neither removes B2 from the world nor clears the
  back-reference of B2. The hook reads \<^verbatim>\<open>_this.body\<close> when it runs, not the body
  it was installed on. In the scene, with bodies 1 and 2 attached in turn to game object 0:
  body 2 is in the world and refers back to the game object; the hook of body 1 returns,
  and afterwards body 2 is out of the world and its back-reference is cleared.
\<close>

theorem C1_stale_hook_hits_new_body:
  "2 \<in> worlds sceneTwo 0 \<and>
   gameObject (bodies sceneTwo 2) = Some 0 \<and>
   body (ents sceneTwo 0) = Some 2 \<and>
   destroy (bodies sceneTwo 1) = Some 0 \<and>
   \<not> isl (invokeDestroy 1 sceneTwo) \<and>
   2 \<notin> worlds (projr (invokeDestroy 1 sceneTwo)) 0 \<and>
   gameObject (bodies (projr (invokeDestroy 1 sceneTwo)) 2) = None"
  by (simp add: invokeDestroy_def sceneTwo_def sceneOne_def scene_def attach_simps scene_simps
      world_remove_def Let_def)

subsection \<open>C2: at most one active body\<close>

text \<open>
  C2: the game object holds at most one active body at any time, and attaching a new body
  to a game object that holds one removes the old body from the world. For a sequence of
  attachments to one game object, started where none of the bodies to be attached is in
  the game object's world unless it is the body the game object holds: after every prefix
  of the sequence, at most one of these bodies is in the world, and a body that is in the
  world is the one the game object holds. And one attachment of a body other than the
  held one leaves the new body in the slot and the old one out of the world, whatever the
  flag.
\<close>

theorem C2_one_active_body:
  assumes "\<forall>b\<in>set (map fst ops). b \<in> worlds s (world (ents s e)) \<longrightarrow> body (ents s e) = Some b"
  shows "(\<forall>n. let s' = attachSeq e (take n ops) s in
            card {b \<in> set (map fst ops). b \<in> worlds s' (world (ents s e))} \<le> 1 \<and>
            (\<forall>b\<in>set (map fst ops). b \<in> worlds s' (world (ents s e)) \<longrightarrow>
                body (ents s' e) = Some b)) \<and>
         (\<forall>b a old. body (ents s e) = Some old \<and> b \<noteq> old \<longrightarrow>
            body (ents (snd (setExistingBody e b a s)) e) = Some b \<and>
            old \<notin> worlds (snd (setExistingBody e b a s)) (world (ents s e)))"
proof -
  have live: "\<forall>b\<in>set (map fst ops).
                b \<in> worlds (attachSeq e (take n ops) s) (world (ents s e)) \<longrightarrow>
                body (ents (attachSeq e (take n ops) s) e) = Some b" for n
  proof -
    have "set (map fst (take n ops)) \<subseteq> set (map fst ops)"
      by (metis set_take_subset take_map)
    from attachSeq_inv [OF this assms] show ?thesis .
  qed
  have one: "card {b \<in> set (map fst ops).
                     b \<in> worlds (attachSeq e (take n ops) s) (world (ents s e))} \<le> 1" for n
  proof -
    have "{b \<in> set (map fst ops). b \<in> worlds (attachSeq e (take n ops) s) (world (ents s e))}
            \<subseteq> set_option (body (ents (attachSeq e (take n ops) s) e))"
      using live [of n] by auto
    then have "card {b \<in> set (map fst ops).
                       b \<in> worlds (attachSeq e (take n ops) s) (world (ents s e))}
            \<le> card (set_option (body (ents (attachSeq e (take n ops) s) e)))"
      by (intro card_mono) simp_all
    also have "\<dots> \<le> 1"
      by (cases "body (ents (attachSeq e (take n ops) s) e)") simp_all
    finally show ?thesis .
  qed
  have step: "body (ents (snd (setExistingBody e b a s)) e) = Some b \<and>
              old \<notin> worlds (snd (setExistingBody e b a s)) (world (ents s e))"
    if "body (ents s e) = Some old" "b \<noteq> old" for b a old
    using that by (simp add: attach_simps)
  show ?thesis
    unfolding Let_def using live one step by blast
qed

text \<open>
  C2 in the scene: bodies 1 and 2 attached in turn to game object 0. The world is empty
  at the start; at the end the game object holds body 2, which is in the world, and body 1
  is not.
\<close>

theorem C2_one_active_body_witness:
  "worlds scene 0 = {} \<and>
   body (ents (attachSeq 0 [(1, None), (2, None)] scene) 0) = Some 2 \<and>
   1 \<notin> worlds (attachSeq 0 [(1, None), (2, None)] scene) 0 \<and>
   2 \<in> worlds (attachSeq 0 [(1, None), (2, None)] scene) 0"
proof -
  have w0: "worlds scene 0 = {}" by (simp add: scene_def scene_simps)
  have e0: "world (ents scene 0) = 0" by (simp add: scene_def scene_simps)
  have h: "\<forall>b\<in>set (map fst [(1::nat, None::bool option), (2, None)]).
             b \<in> worlds scene (world (ents scene 0)) \<longrightarrow> body (ents scene 0) = Some b"
    by (simp add: w0 e0)
  have in2: "2 \<in> worlds (attachSeq 0 [(1, None), (2, None)] scene) 0"
    by (simp add: attach_simps scene_def scene_simps)
  from C2_one_active_body [OF h]
  have "\<forall>b\<in>set (map fst [(1::nat, None::bool option), (2, None)]).
          b \<in> worlds (attachSeq 0 (take 2 [(1, None), (2, None)]) scene) (world (ents scene 0)) \<longrightarrow>
          body (ents (attachSeq 0 (take 2 [(1, None), (2, None)]) scene) 0) = Some b"
    unfolding Let_def by blast
  then have live: "\<forall>b\<in>{1, 2}. b \<in> worlds (attachSeq 0 [(1, None), (2, None)] scene) 0 \<longrightarrow>
          body (ents (attachSeq 0 [(1, None), (2, None)] scene) 0) = Some b"
    by (simp add: e0)
  from live in2 have b2: "body (ents (attachSeq 0 [(1, None), (2, None)] scene) 0) = Some 2"
    by blast
  from live b2 have "1 \<notin> worlds (attachSeq 0 [(1, None), (2, None)] scene) 0"
    by auto
  with w0 b2 in2 show ?thesis by blast
qed

subsection \<open>C3: fromVertices\<close>

text \<open>
  C3: for a configuration of type \<^verbatim>\<open>fromVertices\<close> (or \<^verbatim>\<open>fromVerts\<close>) whose
  \<^verbatim>\<open>verts\<close> is a raw point sequence or a non-empty path string. The points are the
  result of the path parser on the string where \<^verbatim>\<open>verts\<close> is a path string, and the
  array as it is given where \<^verbatim>\<open>verts\<close> is a raw array. Where the game object holds
  a body without the \<^verbatim>\<open>temp\<close> property, that body receives these points through
  \<^verbatim>\<open>Body.setVertices\<close>, no body is constructed, and the same body stays the game
  object's body; where the game object holds no body, a new body is made by
  \<^verbatim>\<open>Bodies.fromVertices\<close> with the resolved position, these points and the cleanup
  flags (defaults false, 0.01 and 10), it becomes the game object's body, and no body has
  its vertices replaced.
\<close>

theorem C3_fromVertices_in_place_or_fresh:
  assumes "cfg_type cfg = Some ''fromVertices'' \<or> cfg_type cfg = Some ''fromVerts''"
    and "cfg_verts cfg = Some v"
    and "v \<noteq> VPath []"
  shows "let s' = snd (setBody fromPath this (CObj cfg) opts s);
             verts = (case v of VPath p \<Rightarrow> fromPath p | VRaw pts \<Rightarrow> pts)
         in (\<forall>cur. body (ents s this) = Some cur \<and> \<not> temp (bodies s cur) \<longrightarrow>
               body (ents s' this) = Some cur \<and>
               vertices (bodies s' cur) = Some verts \<and>
               made (bodies s' cur) = made (bodies s cur) \<and>
               nextBody s' = nextBody s) \<and>
            (body (ents s this) = None \<longrightarrow>
               body (ents s' this) = Some (nextBody s) \<and>
               made (bodies s' (nextBody s)) =
                 FromVertices
                   (case cfg_x cfg of Some x \<Rightarrow> x | None \<Rightarrow> fst (tempVec2 (ents s this)))
                   (case cfg_y cfg of Some y \<Rightarrow> y | None \<Rightarrow> snd (tempVec2 (ents s this)))
                   verts opts
                   (case cfg_flagInternal cfg of Some f \<Rightarrow> f | None \<Rightarrow> False)
                   (case cfg_removeCollinear cfg of Some c \<Rightarrow> c | None \<Rightarrow> 0.01)
                   (case cfg_minimumArea cfg of Some a \<Rightarrow> a | None \<Rightarrow> 10) \<and>
               vertices (bodies s' (nextBody s)) = None \<and>
               (\<forall>b. b \<noteq> nextBody s \<longrightarrow> vertices (bodies s' b) = vertices (bodies s b)))"
proof -
  have tv: "truthyVerts v"
    using assms(3) by (cases v) simp_all
  have rv: "resolveVerts fromPath v = (case v of VPath p \<Rightarrow> fromPath p | VRaw pts \<Rightarrow> pts)"
    by (cases v) simp_all
  have inplace: "body (ents s' this) = Some cur \<and>
               vertices (bodies s' cur) =
                 Some (case v of VPath p \<Rightarrow> fromPath p | VRaw pts \<Rightarrow> pts) \<and>
               made (bodies s' cur) = made (bodies s cur) \<and>
               nextBody s' = nextBody s"
    if "body (ents s this) = Some cur" "\<not> temp (bodies s cur)"
      "s' = snd (setBody fromPath this (CObj cfg) opts s)" for cur s'
    using that buildShape_inplace [OF assms(1,2) tv that(1,2), of fromPath opts] rv
    by (simp add: setBody_def attach_simps setVertices_def)
  have fresh: "body (ents s' this) = Some (nextBody s) \<and>
               made (bodies s' (nextBody s)) =
                 FromVertices
                   (case cfg_x cfg of Some x \<Rightarrow> x | None \<Rightarrow> fst (tempVec2 (ents s this)))
                   (case cfg_y cfg of Some y \<Rightarrow> y | None \<Rightarrow> snd (tempVec2 (ents s this)))
                   (case v of VPath p \<Rightarrow> fromPath p | VRaw pts \<Rightarrow> pts) opts
                   (case cfg_flagInternal cfg of Some f \<Rightarrow> f | None \<Rightarrow> False)
                   (case cfg_removeCollinear cfg of Some c \<Rightarrow> c | None \<Rightarrow> 0.01)
                   (case cfg_minimumArea cfg of Some a \<Rightarrow> a | None \<Rightarrow> 10) \<and>
               vertices (bodies s' (nextBody s)) = None \<and>
               (\<forall>b. b \<noteq> nextBody s \<longrightarrow> vertices (bodies s' b) = vertices (bodies s b))"
    if "body (ents s this) = None"
      "s' = snd (setBody fromPath this (CObj cfg) opts s)" for s'
    using that buildShape_fresh [OF assms(1,2) tv that(1), of fromPath opts] rv
    by (simp add: setBody_def attach_simps newBody_def GetFastValue_def Let_def
        split: option.splits)
  show ?thesis
    unfolding Let_def using inplace fresh by blast
qed

text \<open>
  C3 on a path string and on a raw array, each on the game object that holds body 1 and on
  the game object without a body. The parser turns the path of eleven characters into the
  triangle with legs 11. With body 1 held, body 1 stays and receives the parsed triangle,
  or the raw array as given; without a body, the new body 100 is made by
  \<^verbatim>\<open>Bodies.fromVertices\<close> from the parsed triangle, or from the raw array as given,
  with the default flags.
\<close>

theorem C3_fromVertices_in_place_or_fresh_witness:
  "body (ents (snd (setBody legsPath 0
       (CObj (emptyConfig\<lparr>cfg_type := Some ''fromVertices'',
                          cfg_verts := Some (VPath ''0 0 7 0 0 7'')\<rparr>))
       [] sceneOne)) 0) = Some 1 \<and>
   vertices (bodies (snd (setBody legsPath 0
       (CObj (emptyConfig\<lparr>cfg_type := Some ''fromVertices'',
                          cfg_verts := Some (VPath ''0 0 7 0 0 7'')\<rparr>))
       [] sceneOne)) 1) = Some [(0, 0), (11, 0), (0, 11)] \<and>
   vertices (bodies (snd (setBody legsPath 0
       (CObj (emptyConfig\<lparr>cfg_type := Some ''fromVerts'',
                          cfg_verts := Some (VRaw rawTriangle)\<rparr>))
       [] sceneOne)) 1) = Some [(0, 0), (10, 0), (0, 10)] \<and>
   body (ents (snd (setBody legsPath 0
       (CObj (emptyConfig\<lparr>cfg_type := Some ''fromVertices'',
                          cfg_verts := Some (VPath ''0 0 7 0 0 7'')\<rparr>))
       [] scene)) 0) = Some 100 \<and>
   made (bodies (snd (setBody legsPath 0
       (CObj (emptyConfig\<lparr>cfg_type := Some ''fromVertices'',
                          cfg_verts := Some (VPath ''0 0 7 0 0 7'')\<rparr>))
       [] scene)) 100) = FromVertices 0 0 [(0, 0), (11, 0), (0, 11)] [] False 0.01 10 \<and>
   made (bodies (snd (setBody legsPath 0
       (CObj (emptyConfig\<lparr>cfg_type := Some ''fromVerts'',
                          cfg_verts := Some (VRaw rawTriangle)\<rparr>))
       [] scene)) 100) = FromVertices 0 0 [(0, 0), (10, 0), (0, 10)] [] False 0.01 10"
proof -
  let ?path = "emptyConfig\<lparr>cfg_type := Some ''fromVertices'',
                           cfg_verts := Some (VPath ''0 0 7 0 0 7'')\<rparr>"
  let ?raw = "emptyConfig\<lparr>cfg_type := Some ''fromVerts'',
                          cfg_verts := Some (VRaw rawTriangle)\<rparr>"
  have tp: "cfg_type ?path = Some ''fromVertices'' \<or> cfg_type ?path = Some ''fromVerts''"
    by simp
  have tr: "cfg_type ?raw = Some ''fromVertices'' \<or> cfg_type ?raw = Some ''fromVerts''"
    by simp
  have vp: "cfg_verts ?path = Some (VPath ''0 0 7 0 0 7'')" by simp
  have vr: "cfg_verts ?raw = Some (VRaw rawTriangle)" by simp
  have np: "VPath ''0 0 7 0 0 7'' \<noteq> VPath []" by simp
  have nr: "VRaw rawTriangle \<noteq> VPath []" by simp
  have one: "body (ents sceneOne 0) = Some 1 \<and> \<not> temp (bodies sceneOne 1)"
    by (simp add: sceneOne_def scene_def attach_simps scene_simps)
  have none: "body (ents scene 0) = None"
    by (simp add: scene_def scene_simps)
  have sc: "tempVec2 (ents scene 0) = (0, 0)"
    by (simp add: scene_def scene_simps)
  have nb: "nextBody scene = 100"
    by (simp add: scene_def scene_simps)
  from C3_fromVertices_in_place_or_fresh [OF tp vp np, of legsPath 0 "[]" sceneOne] one
  have a: "body (ents (snd (setBody legsPath 0 (CObj ?path) [] sceneOne)) 0) = Some 1 \<and>
           vertices (bodies (snd (setBody legsPath 0 (CObj ?path) [] sceneOne)) 1) =
             Some [(0, 0), (11, 0), (0, 11)]"
    by (simp add: Let_def legsPath_def)
  from C3_fromVertices_in_place_or_fresh [OF tr vr nr, of legsPath 0 "[]" sceneOne] one
  have b: "vertices (bodies (snd (setBody legsPath 0 (CObj ?raw) [] sceneOne)) 1) =
             Some [(0, 0), (10, 0), (0, 10)]"
    by (simp add: Let_def rawTriangle_def)
  from C3_fromVertices_in_place_or_fresh [OF tp vp np, of legsPath 0 "[]" scene] none
  have c: "body (ents (snd (setBody legsPath 0 (CObj ?path) [] scene)) 0) = Some 100 \<and>
           made (bodies (snd (setBody legsPath 0 (CObj ?path) [] scene)) 100) =
             FromVertices 0 0 [(0, 0), (11, 0), (0, 11)] [] False 0.01 10"
    by (simp add: Let_def legsPath_def emptyConfig_def sc nb)
  from C3_fromVertices_in_place_or_fresh [OF tr vr nr, of legsPath 0 "[]" scene] none
  have d: "made (bodies (snd (setBody legsPath 0 (CObj ?raw) [] scene)) 100) =
             FromVertices 0 0 [(0, 0), (10, 0), (0, 10)] [] False 0.01 10"
    by (simp add: Let_def rawTriangle_def emptyConfig_def sc nb)
  from a b c d show ?thesis by simp
qed

subsection \<open>C4: when the back-reference is cleared\<close>

text \<open>
  C4 says that every part of an attached body refers back to the game object and that the
  body's back-reference is cleared exactly when the body is destroyed, on no other
  occasion. In the scene, with bodies 1 and 2 attached in turn to game object 0, both
  bodies carry the hook and refer back to the game object. Destroying body 1 leaves the
  back-reference of body 1 in place and clears the one of body 2, whose hook was never
  called.
\<close>

theorem C4_backref_cleared_on_other_body:
  "destroy (bodies sceneTwo 1) = Some 0 \<and>
   destroy (bodies sceneTwo 2) = Some 0 \<and>
   gameObject (bodies sceneTwo 1) = Some 0 \<and>
   gameObject (bodies sceneTwo 2) = Some 0 \<and>
   \<not> isl (invokeDestroy 1 sceneTwo) \<and>
   gameObject (bodies (projr (invokeDestroy 1 sceneTwo)) 1) = Some 0 \<and>
   gameObject (bodies (projr (invokeDestroy 1 sceneTwo)) 2) = None"
  by (simp add: invokeDestroy_def sceneTwo_def sceneOne_def scene_def attach_simps scene_simps
      world_remove_def Let_def)

subsection \<open>C5: attaching without adding to the world\<close>

text \<open>
  C5: \<^verbatim>\<open>setExistingBody(body, false)\<close> returns the game object, installs the body,
  takes the previously held body (if any) out of the game object's world, sets the
  back-reference on every part of the new body, and adds nothing to the world: the world
  afterwards is the world before without the previously held body.
\<close>

theorem C5_attach_without_adding:
  "let r = setExistingBody this b (Some False) s; s' = snd r; w = world (ents s this) in
     fst r = this \<and>
     body (ents s' this) = Some b \<and>
     worlds s' w = worlds s w - set_option (body (ents s this)) \<and>
     (\<forall>old. body (ents s this) = Some old \<longrightarrow> old \<notin> worlds s' w) \<and>
     parts (bodies s' b) = parts (bodies s b) \<and>
     (\<forall>p\<in>set (parts (bodies s b)). gameObject (bodies s' p) = Some this) \<and>
     (b \<notin> worlds s w \<longrightarrow> b \<notin> worlds s' w)"
  by (simp add: attach_simps Let_def)

text \<open>
  C5 in the scene: game object 0 holds body 1, which is in the world; attaching body 2
  with the flag false leaves the world empty, body 2 in the slot and referring back.
\<close>

theorem C5_attach_without_adding_witness:
  "1 \<in> worlds sceneOne 0 \<and> body (ents sceneOne 0) = Some 1 \<and>
   body (ents (snd (setExistingBody 0 2 (Some False) sceneOne)) 0) = Some 2 \<and>
   worlds (snd (setExistingBody 0 2 (Some False) sceneOne)) 0 = {} \<and>
   gameObject (bodies (snd (setExistingBody 0 2 (Some False) sceneOne)) 2) = Some 0"
proof -
  have a: "1 \<in> worlds sceneOne 0" "body (ents sceneOne 0) = Some 1"
    "worlds sceneOne 0 = {1}" "world (ents sceneOne 0) = 0" "parts (bodies sceneOne 2) = [2]"
    by (simp_all add: sceneOne_def scene_def attach_simps scene_simps)
  from C5_attach_without_adding [of 0 2 sceneOne] a show ?thesis
    by (simp add: Let_def)
qed

subsection \<open>C6: a null configuration\<close>

text \<open>
  C6: \<^verbatim>\<open>setBody\<close> with a \<^verbatim>\<open>null\<close> or absent configuration returns the game
  object and leaves the whole store as it was, so the game object's body and the worlds
  are unchanged.
\<close>

theorem C6_null_config_noop:
  "setBody fromPath this CNull opts s = (this, s) \<and>
   body (ents (snd (setBody fromPath this CNull opts s)) this) = body (ents s this) \<and>
   worlds (snd (setBody fromPath this CNull opts s)) = worlds s"
  by (simp add: setBody_def)

text \<open>C6 on the game object that holds body 1.\<close>

theorem C6_null_config_noop_witness:
  "setBody onePoint 0 CNull [] sceneOne = (0, sceneOne)"
  using C6_null_config_noop [of onePoint 0 "[]" sceneOne] by simp

subsection \<open>C7: the defaults of a circle\<close>



subsection \<open>C8: the defaults of a polygon\<close>



subsection \<open>C9: a configuration object without a type\<close>

text \<open>
  C9 says that every configuration object without a type gets a rectangle body sized from
  the game object's width and height. The width and height are read from the configuration
  first: the object \<^verbatim>\<open>{ width: 5 }\<close> has no type, and on a game object 40 wide and 20
  high the rectangle is 5 wide, not 40.
\<close>

theorem C9_missing_type_counterexample:
  "cfg_type (emptyConfig\<lparr>cfg_width := Some 5\<rparr>) = None \<and>
   width (ents scene 0) = 40 \<and> height (ents scene 0) = 20 \<and>
   made (bodies (snd (setBody onePoint 0 (CObj (emptyConfig\<lparr>cfg_width := Some 5\<rparr>)) [] scene)) 100)
     = Rectangle 0 0 5 20 [] \<and>
   made (bodies (snd (setBody onePoint 0 (CObj (emptyConfig\<lparr>cfg_width := Some 5\<rparr>)) [] scene)) 100)
     \<noteq> Rectangle 0 0 (width (ents scene 0)) (height (ents scene 0)) []"
  by (simp add: build_defs GetFastValue_def attach_simps emptyConfig_def scene_def scene_simps)

text \<open>
  C9 as amended: for every configuration object without a type, \<^verbatim>\<open>setBody\<close> treats
  the type as \<^verbatim>\<open>rectangle\<close>: it returns the game object and attaches a new body made
  by \<^verbatim>\<open>Bodies.rectangle\<close>, whose width and height are those of the configuration where
  it has them and those of the game object otherwise (so the game object's own size where
  the configuration has neither); the body is added to the world unless the configuration
  sets \<^verbatim>\<open>addToWorld\<close> to false.
\<close>

theorem C9_missing_type_rectangle:
  assumes "cfg_type cfg = None"
  shows "let r = setBody fromPath this (CObj cfg) opts s; s' = snd r;
             bodyX = GetFastValue (cfg_x cfg) (fst (tempVec2 (ents s this)));
             bodyY = GetFastValue (cfg_y cfg) (snd (tempVec2 (ents s this)))
         in fst r = this \<and>
            body (ents s' this) = Some (nextBody s) \<and>
            made (bodies s' (nextBody s)) =
              Rectangle bodyX bodyY
                (case cfg_width cfg of Some w \<Rightarrow> w | None \<Rightarrow> width (ents s this))
                (case cfg_height cfg of Some h \<Rightarrow> h | None \<Rightarrow> height (ents s this)) opts \<and>
            (cfg_width cfg = None \<and> cfg_height cfg = None \<longrightarrow>
               made (bodies s' (nextBody s)) =
                 Rectangle bodyX bodyY (width (ents s this)) (height (ents s this)) opts) \<and>
            (cfg_addToWorld cfg \<noteq> Some False \<longrightarrow>
               nextBody s \<in> worlds s' (world (ents s this)))"
  using assms
  by (simp add: build_defs GetFastValue_def attach_simps split: option.splits)

text \<open>
  C9 as amended, on the empty object \<^verbatim>\<open>{}\<close> and a game object 40 wide and 20 high:
  a rectangle of 40 by 20, attached and in the world.
\<close>

theorem C9_missing_type_rectangle_witness:
  "cfg_type emptyConfig = None \<and>
   body (ents (snd (setBody onePoint 0 (CObj emptyConfig) [] scene)) 0) = Some 100 \<and>
   made (bodies (snd (setBody onePoint 0 (CObj emptyConfig) [] scene)) 100) =
     Rectangle 0 0 40 20 [] \<and>
   100 \<in> worlds (snd (setBody onePoint 0 (CObj emptyConfig) [] scene)) 0"
proof -
  have h: "cfg_type emptyConfig = None" by (simp add: emptyConfig_def)
  from C9_missing_type_rectangle [OF h, of onePoint 0 "[]" scene] h show ?thesis
    by (simp add: emptyConfig_def GetFastValue_def scene_def scene_simps Let_def)
qed

subsection \<open>C10: the builders always add to the world\<close>

text \<open>
  C10: after each of \<^verbatim>\<open>setRectangle\<close>, \<^verbatim>\<open>setCircle\<close>, \<^verbatim>\<open>setPolygon\<close> and
  \<^verbatim>\<open>setTrapezoid\<close>, whatever the options, the new body is the game object's body and
  is in the game object's world: \<^verbatim>\<open>addToWorld\<close> is read from the configuration that
  the builder makes, which does not have it.
\<close>

theorem C10_builders_always_add:
  "(let s' = snd (setRectangle fromPath this w h opts s) in
      body (ents s' this) = Some (nextBody s) \<and>
      nextBody s \<in> worlds s' (world (ents s this))) \<and>
   (let s' = snd (setCircle fromPath this r opts s) in
      body (ents s' this) = Some (nextBody s) \<and>
      nextBody s \<in> worlds s' (world (ents s this))) \<and>
   (let s' = snd (setPolygon fromPath this r n opts s) in
      body (ents s' this) = Some (nextBody s) \<and>
      nextBody s \<in> worlds s' (world (ents s this))) \<and>
   (let s' = snd (setTrapezoid fromPath this w h sl opts s) in
      body (ents s' this) = Some (nextBody s) \<and>
      nextBody s \<in> worlds s' (world (ents s this)))"
  by (simp add: setRectangle_def setCircle_def setPolygon_def setTrapezoid_def
      build_defs GetFastValue_def attach_simps emptyConfig_def)

text \<open>
  C10 with options that hold \<^verbatim>\<open>addToWorld: false\<close>: the rectangle is in the world all
  the same.
\<close>

theorem C10_builders_always_add_witness:
  "100 \<in> worlds (snd (setRectangle onePoint 0 8 6 [(''addToWorld'', JBool False)] scene)) 0"
  using C10_builders_always_add
          [of onePoint 0 8 6 "[(''addToWorld'', JBool False)]" scene]
  by (simp add: Let_def scene_def scene_simps)

end
